theory Spec2Isabelle
  imports Main "HOL-Library.AList"
begin

section \<open>The declarations of VPSTools-Bridging-Header.h\<close>

text \<open>
  The header is a list of C function declarations and nothing else: no body, no macro
  with a value, no type of its own. The embedding is therefore the list itself, each
  declaration with its return type and its parameters in the order written.

  C types are kept structural, so that \<^verbatim>\<open>const char*\<close> (a pointer to
  const-qualified char) and \<^verbatim>\<open>char*\<close> are different values.
\<close>

datatype ctype = CVoid | CInt | CChar | CConst ctype | CPtr ctype

record cdecl =
  fname :: string
  ret :: ctype
  params :: "(ctype \<times> string) list"

abbreviation void_ptr :: ctype where
  "void_ptr \<equiv> CPtr CVoid"

abbreviation const_char_ptr :: ctype where
  "const_char_ptr \<equiv> CPtr (CConst CChar)"

text \<open>
  The twelve declarations, lines 17 to 38 of the header, in source order. A parameter
  list written \<^verbatim>\<open>(void)\<close> is the empty list.
\<close>

definition abi :: "cdecl list" where
  "abi =
    [ \<lparr>fname = ''singbox_create_instance'', ret = void_ptr, params = []\<rparr>,
      \<lparr>fname = ''singbox_start_with_config'', ret = CInt,
        params = [(void_ptr, ''instance''), (const_char_ptr, ''config'')]\<rparr>,
      \<lparr>fname = ''singbox_stop'', ret = CInt, params = [(void_ptr, ''instance'')]\<rparr>,
      \<lparr>fname = ''singbox_destroy_instance'', ret = CVoid,
        params = [(void_ptr, ''instance'')]\<rparr>,
      \<lparr>fname = ''singbox_is_running'', ret = CInt, params = [(void_ptr, ''instance'')]\<rparr>,
      \<lparr>fname = ''singbox_get_version'', ret = const_char_ptr, params = []\<rparr>,
      \<lparr>fname = ''singbox_get_last_error'', ret = const_char_ptr,
        params = [(void_ptr, ''instance'')]\<rparr>,
      \<lparr>fname = ''singbox_get_stats'', ret = const_char_ptr,
        params = [(void_ptr, ''instance'')]\<rparr>,
      \<lparr>fname = ''singbox_get_connection_info'', ret = const_char_ptr,
        params = [(void_ptr, ''instance'')]\<rparr>,
      \<lparr>fname = ''singbox_update_config'', ret = CInt,
        params = [(void_ptr, ''instance''), (const_char_ptr, ''config'')]\<rparr>,
      \<lparr>fname = ''singbox_set_log_level'', ret = CInt,
        params = [(void_ptr, ''instance''), (const_char_ptr, ''level'')]\<rparr>,
      \<lparr>fname = ''singbox_free_string'', ret = CVoid,
        params = [(const_char_ptr, ''str'')]\<rparr> ]"

definition declared :: "string \<Rightarrow> cdecl option" where
  "declared n = find (\<lambda>d. fname d = n) abi"

definition return_type :: "string \<Rightarrow> ctype option" where
  "return_type n = map_option ret (declared n)"

subsection \<open>The four kinds of value that cross the boundary\<close>

definition is_handle :: "ctype \<Rightarrow> bool" where
  "is_handle t = (t = CPtr CVoid)"

definition is_text :: "ctype \<Rightarrow> bool" where
  "is_text t = (t = CPtr (CConst CChar) \<or> t = CPtr CChar)"

definition is_integer :: "ctype \<Rightarrow> bool" where
  "is_integer t = (t = CInt)"

definition is_void :: "ctype \<Rightarrow> bool" where
  "is_void t = (t = CVoid)"

definition abi_type :: "ctype \<Rightarrow> bool" where
  "abi_type t = (is_handle t \<or> is_text t \<or> is_integer t \<or> is_void t)"

text \<open>A function returns a status code when it is declared and its return type is \<^verbatim>\<open>int\<close>.\<close>

definition returns_status :: "string \<Rightarrow> bool" where
  "returns_status n = (case return_type n of None \<Rightarrow> False | Some t \<Rightarrow> is_integer t)"

section \<open>The lifecycle contract of the declared functions\<close>
























subsection \<open>Executions\<close>











subsection \<open>What holds of every state an execution reaches\<close>



section \<open>Theorems about the declarations\<close>

text \<open>
  C9. The header declares exactly twelve functions, under twelve different names, and
  the return type and every parameter type of each is one of four: \<^verbatim>\<open>void*\<close> (an
  opaque handle), a pointer to char (a C string), \<^verbatim>\<open>int\<close>, or \<^verbatim>\<open>void\<close>.
\<close>

theorem abi_twelve_functions_four_types:
  "length abi = 12 \<and> distinct (map fname abi) \<and>
   (\<forall>d \<in> set abi. abi_type (ret d) \<and> (\<forall>p \<in> set (params d). abi_type (fst p)))"
  by (simp add: abi_def abi_type_def is_handle_def is_text_def is_integer_def is_void_def)

theorem abi_twelve_functions_four_types_witness:
  "\<lparr>fname = ''singbox_get_stats'', ret = const_char_ptr,
      params = [(void_ptr, ''instance'')]\<rparr> \<in> set abi \<and>
   is_text (ret \<lparr>fname = ''singbox_get_stats'', ret = const_char_ptr,
      params = [(void_ptr, ''instance'')]\<rparr>) \<and>
   (void_ptr, ''instance'') \<in> set (params \<lparr>fname = ''singbox_get_stats'',
      ret = const_char_ptr, params = [(void_ptr, ''instance'')]\<rparr>) \<and>
   is_handle (fst (void_ptr, ''instance''))"
  using abi_twelve_functions_four_types
  by (simp add: abi_def abi_type_def is_handle_def is_text_def is_integer_def is_void_def)

text \<open>
  C2, as stated, fails at \<^verbatim>\<open>singbox_destroy_instance\<close>: the header declares it
  \<^verbatim>\<open>void\<close>, so it returns no status code to its caller.
\<close>

theorem destroy_returns_no_status:
  "return_type ''singbox_destroy_instance'' = Some CVoid \<and>
   \<not> returns_status ''singbox_destroy_instance''"
  by (simp add: returns_status_def return_type_def declared_def abi_def is_integer_def)

text \<open>
  C2, amended. Of the five operations that change instance state, four return an
  integer status code (\<^verbatim>\<open>singbox_start_with_config\<close>, \<^verbatim>\<open>singbox_stop\<close>,
  \<^verbatim>\<open>singbox_update_config\<close>, \<^verbatim>\<open>singbox_set_log_level\<close>); the fifth,
  \<^verbatim>\<open>singbox_destroy_instance\<close>, returns nothing.
\<close>

theorem status_codes_of_mutating_operations:
  "returns_status ''singbox_start_with_config'' \<and>
   returns_status ''singbox_stop'' \<and>
   returns_status ''singbox_update_config'' \<and>
   returns_status ''singbox_set_log_level'' \<and>
   return_type ''singbox_destroy_instance'' = Some CVoid"
  by (simp add: returns_status_def return_type_def declared_def abi_def is_integer_def)

section \<open>Theorems about the lifecycle contract\<close>

subsection \<open>One more call\<close>







subsection \<open>Handles\<close>






subsection \<open>The running flag follows the history\<close>








end
